theory Spec2Isabelle
  imports Main "HOL-Library.Word"
begin

unbundle bit_operations_syntax

section \<open>The DesignWare DMA driver (src/drivers/dw-dma.c)\<close>

text \<open>
  A shallow embedding of the driver. The driver's functions take the device
  (\<^verbatim>\<open>struct dma\<close>) and reach their private data through it; here one record
  holds the device, the private channel array, the register file behind
  \<^verbatim>\<open>dma_base(dma)\<close> and the sequence of external effects performed so far.
  Every function of the driver is a function from that record to a result and
  the updated record.
\<close>

subsection \<open>Machine types\<close>

type_synonym u8 = "8 word"
type_synonym u32 = "32 word"

text \<open>
  A C \<^verbatim>\<open>int\<close>: 32 bits, read as two's complement by \<open>sint\<close>. Its arithmetic
  wraps around, which is what the compiled code does where the C standard
  leaves signed overflow undefined.
\<close>

type_synonym s32 = "32 word"

subsection \<open>Definitions of the headers the file includes\<close>

text \<open>
  \<^verbatim>\<open>reef/dma.h\<close> and \<^verbatim>\<open>reef/dw-dma.h\<close> are not part of the
  verified file. Their constants and macros are parameters of the model: each
  function takes the record of the definitions it uses. Nothing is assumed
  about their values except where a theorem says so.
\<close>

record dma_hdr =
  DMA_STATUS_FREE :: u8
  DMA_STATUS_IDLE :: u8
  DMA_STATUS_RUNNING :: u8
  DMA_STATUS_DRAINING :: u8
  DMA_DIR_MEM_TO_MEM :: u32
  DMA_DIR_MEM_TO_DEV :: u32
  DMA_DIR_DEV_TO_MEM :: u32
  DMA_DIR_DEV_TO_DEV :: u32

record dw_hdr =
  DWC_CTLL_FC :: "u32 \<Rightarrow> u32"
  DWC_CTLL_SRC_WIDTH :: "u32 \<Rightarrow> u32"
  DWC_CTLL_DST_WIDTH :: "u32 \<Rightarrow> u32"
  DWC_CTLL_SRC_MSIZE :: "u32 \<Rightarrow> u32"
  DWC_CTLL_DST_MSIZE :: "u32 \<Rightarrow> u32"
  DWC_CTLL_SRC_INC :: u32
  DWC_CTLL_DST_INC :: u32
  DWC_CTLL_SRC_FIX :: u32
  DWC_CTLL_DST_FIX :: u32
  DWC_CTLL_LLP_S_EN :: u32
  DWC_CTLL_LLP_D_EN :: u32
  DWC_CTLH_DONE :: u32
  DWC_CFGH_SRC_PER :: "u32 \<Rightarrow> u32"
  DWC_CFGH_DST_PER :: "u32 \<Rightarrow> u32"
  DWC_CFGL_RELOAD_SAR :: u32
  DWC_CFGL_RELOAD_DAR :: u32
  sizeof_dw_lli1 :: nat

subsection \<open>Data\<close>

text \<open>
  \<^verbatim>\<open>struct dw_lli1\<close>: the fields of a hardware descriptor that the driver
  reads and writes.
\<close>

record dw_lli1 =
  sar :: u32
  dar :: u32
  llp :: u32
  ctrl_lo :: u32
  ctrl_hi :: u32

text \<open>
  \<^verbatim>\<open>struct dma_chan_data\<close>. The pointer \<^verbatim>\<open>lli\<close> is \<open>None\<close> when null,
  and otherwise the address of the descriptor array together with the array it
  points to. A function pointer is its address, 0 when null.
\<close>

record dma_chan_data =
  status :: u8
  lli :: "(u32 \<times> dw_lli1 list) option"
  desc_count :: s32
  cfg_lo :: u32
  cfg_hi :: u32
  cb :: u32
  cb_data :: u32

text \<open>
  \<^verbatim>\<open>struct dma_sg_elem\<close> and \<^verbatim>\<open>struct dma_sg_config\<close>: the fields the
  driver reads. The circular list \<^verbatim>\<open>elem_list\<close> is the list of its elements in
  traversal order.
\<close>

record dma_sg_elem =
  src :: u32
  dest :: u32

record dma_sg_config =
  direction :: u32
  src_width :: u32
  dest_width :: u32
  elem_list :: "dma_sg_elem list"

text \<open>What the driver does to the world outside its own data, in order.\<close>

datatype event =
    RegRead u32
  | RegWrite u32 u32
  | TracePoint u32
  | IrqDisable u32
  | IrqClear u32
  | IrqEnable u32
  | WorkInit
  | WorkSchedule int
  | IrqRegister u32
  | Callback u32 u32

text \<open>
  The device with its private data \<^verbatim>\<open>struct dma_pdata\<close> (the channel array,
  indexed from 0 to \<^verbatim>\<open>DW_MAX_CHAN - 1\<close>), the registers by address, and
  the effects so far.
\<close>

record dma =
  base :: u32
  irq :: u32
  chan :: "nat \<Rightarrow> dma_chan_data"
  regs :: "u32 \<Rightarrow> u32"
  trace :: "event list"

text \<open>
  Undefined behaviour of the C program that the model makes a result: a null
  pointer dereferenced, an array indexed outside its bounds.
\<close>

datatype fault = NullDeref | OutOfBounds

datatype errno = ENODEV

subsection \<open>Register map\<close>

definition DW_MAX_CHAN :: nat where "DW_MAX_CHAN = 8"
definition DW_CH_SIZE :: u32 where "DW_CH_SIZE = 0x58"

definition BYT_CHAN_OFFSET :: "nat \<Rightarrow> u32" where
  "BYT_CHAN_OFFSET c = DW_CH_SIZE * of_nat c"

definition DW_SAR :: "nat \<Rightarrow> u32" where "DW_SAR c = 0x0000 + BYT_CHAN_OFFSET c"
definition DW_DAR :: "nat \<Rightarrow> u32" where "DW_DAR c = 0x0008 + BYT_CHAN_OFFSET c"
definition DW_LLP :: "nat \<Rightarrow> u32" where "DW_LLP c = 0x0010 + BYT_CHAN_OFFSET c"
definition DW_CTRL_LOW :: "nat \<Rightarrow> u32" where "DW_CTRL_LOW c = 0x0018 + BYT_CHAN_OFFSET c"
definition DW_CTRL_HIGH :: "nat \<Rightarrow> u32" where "DW_CTRL_HIGH c = 0x001C + BYT_CHAN_OFFSET c"
definition DW_CFG_LOW :: "nat \<Rightarrow> u32" where "DW_CFG_LOW c = 0x0040 + BYT_CHAN_OFFSET c"
definition DW_CFG_HIGH :: "nat \<Rightarrow> u32" where "DW_CFG_HIGH c = 0x0044 + BYT_CHAN_OFFSET c"

definition DW_STATUS_BLOCK :: u32 where "DW_STATUS_BLOCK = 0x02F0"
definition DW_MASK_TFR :: u32 where "DW_MASK_TFR = 0x0310"
definition DW_MASK_BLOCK :: u32 where "DW_MASK_BLOCK = 0x0318"
definition DW_MASK_SRC_TRAN :: u32 where "DW_MASK_SRC_TRAN = 0x0320"
definition DW_MASK_DST_TRAN :: u32 where "DW_MASK_DST_TRAN = 0x0328"
definition DW_MASK_ERR :: u32 where "DW_MASK_ERR = 0x0330"
definition DW_CLEAR_TFR :: u32 where "DW_CLEAR_TFR = 0x0338"
definition DW_CLEAR_BLOCK :: u32 where "DW_CLEAR_BLOCK = 0x0340"
definition DW_CLEAR_SRC_TRAN :: u32 where "DW_CLEAR_SRC_TRAN = 0x0348"
definition DW_CLEAR_DST_TRAN :: u32 where "DW_CLEAR_DST_TRAN = 0x0350"
definition DW_CLEAR_ERR :: u32 where "DW_CLEAR_ERR = 0x0358"
definition DW_DMA_CFG :: u32 where "DW_DMA_CFG = 0x0398"
definition DW_DMA_CHAN_EN :: u32 where "DW_DMA_CHAN_EN = 0x03A0"

definition INT_MASK :: "nat \<Rightarrow> u32" where "INT_MASK c = push_bit c 0x100"
definition INT_UNMASK :: "nat \<Rightarrow> u32" where "INT_UNMASK c = push_bit c 0x101"
definition CHAN_ENABLE :: "nat \<Rightarrow> u32" where "CHAN_ENABLE c = push_bit c 0x101"
definition CHAN_DISABLE :: "nat \<Rightarrow> u32" where "CHAN_DISABLE c = push_bit c 0x100"

definition DW_CFG_CH_SUSPEND :: u32 where "DW_CFG_CH_SUSPEND = 0x100"
definition DW_CFG_CH_DRAIN :: u32 where "DW_CFG_CH_DRAIN = 0x400"
definition DW_CFG_CH_FIFO_EMPTY :: u32 where "DW_CFG_CH_FIFO_EMPTY = 0x200"

subsection \<open>External operations\<close>

text \<open>
  Modelled from the spec: the register primitives of \<^verbatim>\<open>reef/io.h\<close>
  (read, write, update-bits over the register map) are not in the verified
  file. A write stores the value at the address, a read returns what the
  address holds, update-bits reads the register and writes it back with the
  bits of the mask replaced. Each access is recorded.
\<close>

definition io_reg_write :: "u32 \<Rightarrow> u32 \<Rightarrow> dma \<Rightarrow> dma" where
  "io_reg_write reg v s = s\<lparr>regs := (regs s)(reg := v), trace := trace s @ [RegWrite reg v]\<rparr>"

definition io_reg_read :: "u32 \<Rightarrow> dma \<Rightarrow> u32 \<times> dma" where
  "io_reg_read reg s = (regs s reg, s\<lparr>trace := trace s @ [RegRead reg]\<rparr>)"

definition io_reg_update_bits :: "u32 \<Rightarrow> u32 \<Rightarrow> u32 \<Rightarrow> dma \<Rightarrow> dma" where
  "io_reg_update_bits reg msk v s =
     (let (old, s1) = io_reg_read reg s
      in io_reg_write reg ((old AND NOT msk) OR (v AND msk)) s1)"

text \<open>
  The interrupt controller, the trace buffer, the work queue and the client's
  callback are outside the driver: calling them is recorded, in order.
\<close>

definition effect :: "event \<Rightarrow> dma \<Rightarrow> dma" where
  "effect e s = s\<lparr>trace := trace s @ [e]\<rparr>"

definition chan_ok :: "int \<Rightarrow> bool" where
  "chan_ok channel = (0 \<le> channel \<and> channel < int DW_MAX_CHAN)"

subsection \<open>dw\_dma\_channel\_get\<close>

function channel_get_loop :: "dma_hdr \<Rightarrow> nat \<Rightarrow> dma \<Rightarrow> (errno + int) \<times> dma" where
  "channel_get_loop h i s =
     (if i < DW_MAX_CHAN then
        if status (chan s i) = DMA_STATUS_DRAINING h then channel_get_loop h (Suc i) s
        else if status (chan s i) = DMA_STATUS_FREE h then
          (let s0 = s\<lparr>chan := (chan s)(i := (chan s i)\<lparr>status := DMA_STATUS_IDLE h\<rparr>)\<rparr>;
               s1 = io_reg_write (base s0 + DW_CLEAR_TFR) (push_bit i 0x1) s0;
               s2 = io_reg_write (base s1 + DW_CLEAR_BLOCK) (push_bit i 0x1) s1;
               s3 = io_reg_write (base s2 + DW_CLEAR_SRC_TRAN) (push_bit i 0x1) s2;
               s4 = io_reg_write (base s3 + DW_CLEAR_DST_TRAN) (push_bit i 0x1) s3;
               s5 = io_reg_write (base s4 + DW_CLEAR_ERR) (push_bit i 0x1) s4
           in (Inr (int i), s5))
        else channel_get_loop h (Suc i) s
      else (Inl ENODEV, s))"
  by pat_completeness auto
termination
  by (relation "measure (\<lambda>(h, i, s). DW_MAX_CHAN - i)") auto

declare channel_get_loop.simps [simp del]

definition dw_dma_channel_get :: "dma_hdr \<Rightarrow> dma \<Rightarrow> (errno + int) \<times> dma" where
  "dw_dma_channel_get h s = channel_get_loop h 0 s"

subsection \<open>dw\_dma\_channel\_put\<close>

definition dw_dma_channel_put :: "dma_hdr \<Rightarrow> dma \<Rightarrow> int \<Rightarrow> fault + dma" where
  "dw_dma_channel_put h s channel =
     (if \<not> chan_ok channel then Inl OutOfBounds
      else
        let c = nat channel;
            s1 = s\<lparr>chan := (chan s)(c := (chan s c)\<lparr>status := DMA_STATUS_FREE h\<rparr>)\<rparr>;
            s2 = s1\<lparr>chan := (chan s1)(c := (chan s1 c)\<lparr>cb := 0\<rparr>)\<rparr>
        in Inr s2)"

subsection \<open>dw\_dma\_start\<close>

text \<open>
  The first statement reads \<^verbatim>\<open>p->chan[channel].lli->sar\<close>: with a null
  \<^verbatim>\<open>lli\<close> the function dereferences it before any register is written.
\<close>

definition dw_dma_start :: "dma_hdr \<Rightarrow> dma \<Rightarrow> int \<Rightarrow> fault + (int \<times> dma)" where
  "dw_dma_start h s channel =
     (if \<not> chan_ok channel then Inl OutOfBounds
      else
        let c = nat channel in
        case lli (chan s c) of
          None \<Rightarrow> Inl NullDeref
        | Some (a, []) \<Rightarrow> Inl OutOfBounds
        | Some (a, d # ds) \<Rightarrow>
            let s1 = io_reg_write (base s + DW_SAR c) (sar d) s;
                s2 = io_reg_write (base s1 + DW_DAR c) (dar d) s1;
                s3 = io_reg_write (base s2 + DW_LLP c) (llp d) s2;
                s4 = io_reg_write (base s3 + DW_CTRL_LOW c) (ctrl_lo d) s3;
                s5 = io_reg_write (base s4 + DW_CTRL_HIGH c) (ctrl_hi d) s4;
                s6 = io_reg_write (base s5 + DW_CFG_LOW c) (cfg_lo (chan s5 c)) s5;
                s7 = io_reg_write (base s6 + DW_CFG_HIGH c) (cfg_hi (chan s6 c)) s6;
                s8 = s7\<lparr>chan := (chan s7)(c := (chan s7 c)\<lparr>status := DMA_STATUS_RUNNING h\<rparr>)\<rparr>;
                s9 = io_reg_write (base s8 + DW_MASK_TFR) (INT_UNMASK c) s8;
                s10 = io_reg_write (base s9 + DW_MASK_BLOCK) (INT_UNMASK c) s9;
                s11 = io_reg_write (base s10 + DW_MASK_SRC_TRAN) (INT_UNMASK c) s10;
                s12 = io_reg_write (base s11 + DW_MASK_DST_TRAN) (INT_UNMASK c) s11;
                s13 = io_reg_write (base s12 + DW_MASK_ERR) (INT_UNMASK c) s12;
                s14 = io_reg_write (base s13 + DW_DMA_CHAN_EN) (CHAN_ENABLE c) s13
            in Inr (0, s14))"

subsection \<open>dw\_dma\_fifo\_work\<close>

text \<open>
  The local \<^verbatim>\<open>schedule\<close> is declared without an initialiser and the loop
  only ever assigns 1 to it. Its value on entry is whatever the stack holds: a
  parameter of the model.
\<close>

function fifo_work_loop :: "dma_hdr \<Rightarrow> nat \<Rightarrow> int \<Rightarrow> dma \<Rightarrow> int \<times> dma" where
  "fifo_work_loop h i schedule s =
     (if i < DW_MAX_CHAN then
        if status (chan s i) AND DMA_STATUS_DRAINING h = 0 then
          fifo_work_loop h (Suc i) schedule s
        else
          let (cfg, s1) = io_reg_read (base s + DW_CFG_LOW i) s in
          if cfg AND DW_CFG_CH_FIFO_EMPTY \<noteq> 0 then
            let s2 = io_reg_update_bits (base s1 + DW_DMA_CHAN_EN) (CHAN_DISABLE i) (CHAN_DISABLE i) s1;
                s3 = s2\<lparr>chan := (chan s2)(i := (chan s2 i)
                        \<lparr>status := status (chan s2 i) AND NOT (DMA_STATUS_DRAINING h)\<rparr>)\<rparr>
            in fifo_work_loop h (Suc i) schedule s3
          else fifo_work_loop h (Suc i) 1 s1
      else (schedule, s))"
  by pat_completeness auto
termination
  by (relation "measure (\<lambda>(h, i, schedule, s). DW_MAX_CHAN - i)") auto

declare fifo_work_loop.simps [simp del]

definition dw_dma_fifo_work :: "dma_hdr \<Rightarrow> int \<Rightarrow> dma \<Rightarrow> u32 \<times> dma" where
  "dw_dma_fifo_work h schedule0 s =
     (let (schedule, s') = fifo_work_loop h 0 schedule0 s
      in if schedule \<noteq> 0 then (1, s') else (0, s'))"

subsection \<open>dw\_dma\_stop and dw\_dma\_drain\<close>

definition dw_dma_stop :: "dma_hdr \<Rightarrow> dma \<Rightarrow> int \<Rightarrow> fault + (int \<times> dma)" where
  "dw_dma_stop h s channel =
     (if \<not> chan_ok channel then Inl OutOfBounds
      else
        let c = nat channel;
            s1 = io_reg_update_bits (base s + DW_CFG_LOW c) DW_CFG_CH_SUSPEND DW_CFG_CH_SUSPEND s;
            s2 = s1\<lparr>chan := (chan s1)(c := (chan s1 c)\<lparr>status := DMA_STATUS_DRAINING h\<rparr>)\<rparr>;
            s3 = effect (WorkSchedule 1) s2
        in Inr (0, s3))"

definition dw_dma_drain :: "dma_hdr \<Rightarrow> dma \<Rightarrow> int \<Rightarrow> fault + (int \<times> dma)" where
  "dw_dma_drain h s channel =
     (if \<not> chan_ok channel then Inl OutOfBounds
      else
        let c = nat channel;
            s1 = io_reg_update_bits (base s + DW_CFG_LOW c)
                   (DW_CFG_CH_SUSPEND OR DW_CFG_CH_DRAIN) (DW_CFG_CH_SUSPEND OR DW_CFG_CH_DRAIN) s;
            s2 = s1\<lparr>chan := (chan s1)(c := (chan s1 c)\<lparr>status := DMA_STATUS_DRAINING h\<rparr>)\<rparr>;
            s3 = effect (WorkSchedule 1) s2
        in Inr (0, s3))"

subsection \<open>dw\_dma\_set\_config\<close>

text \<open>The first loop: one increment of \<^verbatim>\<open>desc_count\<close> for each list element.\<close>

fun count_elems :: "dma_sg_elem list \<Rightarrow> s32 \<Rightarrow> s32" where
  "count_elems [] n = n"
| "count_elems (e # es) n = count_elems es (n + 1)"

text \<open>The switch on the direction, applied to the descriptor \<^verbatim>\<open>lli_desc\<close> points to
  (the first one) and to the channel's \<^verbatim>\<open>cfg_hi\<close>.\<close>

definition set_direction :: "dma_hdr \<Rightarrow> dw_hdr \<Rightarrow> u32 \<Rightarrow> dw_lli1 \<Rightarrow> u32 \<Rightarrow> dw_lli1 \<times> u32" where
  "set_direction h w dir d ch =
     (if dir = DMA_DIR_MEM_TO_MEM h then
        (d\<lparr>ctrl_lo := ctrl_lo d OR (DWC_CTLL_SRC_INC w OR DWC_CTLL_DST_INC w)\<rparr>, ch)
      else if dir = DMA_DIR_MEM_TO_DEV h then
        (d\<lparr>ctrl_lo := ctrl_lo d OR (DWC_CTLL_SRC_INC w OR DWC_CTLL_DST_FIX w)\<rparr>,
         ch OR DWC_CFGH_DST_PER w 0)
      else if dir = DMA_DIR_DEV_TO_MEM h then
        (d\<lparr>ctrl_lo := ctrl_lo d OR (DWC_CTLL_SRC_FIX w OR DWC_CTLL_DST_INC w)\<rparr>,
         ch OR DWC_CFGH_SRC_PER w 0)
      else if dir = DMA_DIR_DEV_TO_DEV h then
        (d\<lparr>ctrl_lo := ctrl_lo d OR (DWC_CTLL_SRC_FIX w OR DWC_CTLL_DST_FIX w)\<rparr>,
         ch OR (DWC_CFGH_SRC_PER w 0 OR DWC_CFGH_DST_PER w 0))
      else (d, ch))"

text \<open>
  Pointer arithmetic on \<^verbatim>\<open>struct dw_lli1 *\<close>: the address of the element
  of index \<open>k\<close> in the array at address \<open>a\<close>, as a 32-bit value.
\<close>

definition lli_addr :: "dw_hdr \<Rightarrow> u32 \<Rightarrow> nat \<Rightarrow> u32" where
  "lli_addr w a k = a + of_nat (sizeof_dw_lli1 w * k)"

text \<open>
  The second loop. \<open>a\<close> is the address of the array, \<open>i\<close> the index of the
  descriptor \<^verbatim>\<open>lli_desc\<close> points to, \<open>cl\<close> the channel's \<^verbatim>\<open>cfg_lo\<close>. The
  test \<^verbatim>\<open>nlist != &config->elem_list\<close> holds when the element has a successor.
  \<^verbatim>\<open>(uint32_t)(lli_desc + 1)\<close> is the address of the next element of the array.
\<close>

fun fill_lli :: "dw_hdr \<Rightarrow> u32 \<Rightarrow> nat \<Rightarrow> dma_sg_elem list \<Rightarrow> dw_lli1 list \<Rightarrow> u32
    \<Rightarrow> fault + (dw_lli1 list \<times> u32)" where
  "fill_lli w a i [] ds cl = Inr (ds, cl)"
| "fill_lli w a i (e # es) ds cl =
     (if length ds \<le> i then Inl OutOfBounds
      else
        let d1 = (ds ! i)\<lparr>sar := src e\<rparr>;
            d2 = d1\<lparr>dar := dest e\<rparr>
        in
          if es \<noteq> [] then
            let d3 = d2\<lparr>llp := lli_addr w a (Suc i)\<rparr>;
                d4 = d3\<lparr>ctrl_lo := ctrl_lo d3 OR (DWC_CTLL_LLP_S_EN w OR DWC_CTLL_LLP_D_EN w)\<rparr>
            in fill_lli w a (Suc i) es (ds[i := d4]) cl
          else
            let d3 = d2\<lparr>llp := 0\<rparr>;
                d4 = d3\<lparr>ctrl_lo := ctrl_lo d3 AND NOT (DWC_CTLL_LLP_S_EN w OR DWC_CTLL_LLP_D_EN w)\<rparr>;
                cl' = cl AND NOT (DWC_CFGL_RELOAD_SAR w OR DWC_CFGL_RELOAD_DAR w)
            in fill_lli w a (Suc i) es (ds[i := d4]) cl')"

text \<open>
  The statements before the second loop: they write the control words of the
  descriptor \<^verbatim>\<open>lli_desc\<close> points to, which is the first one of the array
  (the source's comment: "write CTL\_LOn for the first lli"), and the channel's
  \<^verbatim>\<open>cfg_hi\<close>.
\<close>

definition first_lli :: "dma_hdr \<Rightarrow> dw_hdr \<Rightarrow> dma_sg_config \<Rightarrow> dw_lli1 \<Rightarrow> u32 \<Rightarrow> dw_lli1 \<times> u32" where
  "first_lli h w config d chi =
     (let d1 = d\<lparr>ctrl_lo := ctrl_lo d OR DWC_CTLL_FC w (direction config)\<rparr>;
          d2 = d1\<lparr>ctrl_lo := ctrl_lo d1 OR DWC_CTLL_SRC_WIDTH w (src_width config)\<rparr>;
          d3 = d2\<lparr>ctrl_lo := ctrl_lo d2 OR DWC_CTLL_DST_WIDTH w (dest_width config)\<rparr>;
          d4 = d3\<lparr>ctrl_lo := ctrl_lo d3 OR DWC_CTLL_SRC_MSIZE w 0\<rparr>;
          d5 = d4\<lparr>ctrl_lo := ctrl_lo d4 OR DWC_CTLL_DST_MSIZE w 0\<rparr>;
          (d6, ch) = set_direction h w (direction config) d5 chi;
          d7 = d6\<lparr>ctrl_hi := ctrl_hi d6 AND NOT (DWC_CTLH_DONE w)\<rparr>
      in (d7, ch))"

text \<open>
  The allocator \<^verbatim>\<open>rmalloc\<close> is outside the driver. Its answer to a request
  of \<open>n\<close> bytes is \<open>None\<close> (a null pointer) or the address of the block and what
  the block's memory holds, read as descriptors by index. The driver does not
  test the pointer it gets: the first write through a null pointer is the
  fault \<open>NullDeref\<close>.

  The size requested is \<^verbatim>\<open>sizeof(struct dw_lli1) * p->chan[channel].desc_count\<close>,
  a product in \<^verbatim>\<open>size_t\<close>. The driver is built for a 32-bit DSP (it casts
  its pointers to \<^verbatim>\<open>uint32_t\<close>): \<^verbatim>\<open>size_t\<close> is 32 bits, the count is
  converted to it bit for bit, and the product is taken modulo \<open>2 ^ 32\<close>. A
  block of that many bytes holds as many descriptors as fit in it; a write to
  a descriptor past them is the fault \<open>OutOfBounds\<close>.
\<close>

type_synonym allocator = "nat \<Rightarrow> (u32 \<times> (nat \<Rightarrow> dw_lli1)) option"

definition dw_dma_set_config ::
    "dma_hdr \<Rightarrow> dw_hdr \<Rightarrow> allocator \<Rightarrow> dma \<Rightarrow> int \<Rightarrow> dma_sg_config \<Rightarrow> fault + (int \<times> dma)" where
  "dw_dma_set_config h w rmalloc s channel config =
     (if \<not> chan_ok channel then Inl OutOfBounds
      else
        let c = nat channel;
            cnt = count_elems (elem_list config) (desc_count (chan s c));
            bytes = unat (of_nat (sizeof_dw_lli1 w) * cnt :: u32)
        in
          case rmalloc bytes of
            None \<Rightarrow> Inl NullDeref
          | Some (a, mem) \<Rightarrow>
              (case map mem [0..<bytes div sizeof_dw_lli1 w] of
                 [] \<Rightarrow> Inl OutOfBounds
               | d # rest \<Rightarrow>
                   let (d7, ch) = first_lli h w config d (cfg_hi (chan s c))
                   in
                     case fill_lli w a 0 (elem_list config) (d7 # rest) (cfg_lo (chan s c)) of
                       Inl f \<Rightarrow> Inl f
                     | Inr (ds, cl) \<Rightarrow>
                         Inr (0, s\<lparr>chan := (chan s)(c := (chan s c)
                               \<lparr>lli := Some (a, ds), desc_count := cnt, cfg_lo := cl, cfg_hi := ch\<rparr>)\<rparr>)))"

subsection \<open>dw\_dma\_set\_cb\<close>

definition dw_dma_set_cb :: "dma \<Rightarrow> int \<Rightarrow> u32 \<Rightarrow> u32 \<Rightarrow> fault + dma" where
  "dw_dma_set_cb s channel f d =
     (if \<not> chan_ok channel then Inl OutOfBounds
      else
        let c = nat channel
        in Inr (s\<lparr>chan := (chan s)(c := (chan s c)\<lparr>cb := f, cb_data := d\<rparr>)\<rparr>))"

subsection \<open>dw\_dma\_irq\_handler\<close>

function irq_loop :: "dma_hdr \<Rightarrow> nat \<Rightarrow> dma \<Rightarrow> dma" where
  "irq_loop h i s =
     (if i < DW_MAX_CHAN then
        if status (chan s i) \<noteq> DMA_STATUS_FREE h \<and> cb (chan s i) \<noteq> 0 then
          let s1 = io_reg_write (base s + DW_MASK_BLOCK) (INT_MASK i) s;
              s2 = effect (Callback (cb (chan s1 i)) (cb_data (chan s1 i))) s1
          in irq_loop h (Suc i) s2
        else irq_loop h (Suc i) s
      else s)"
  by pat_completeness auto
termination
  by (relation "measure (\<lambda>(h, i, s). DW_MAX_CHAN - i)") auto

declare irq_loop.simps [simp del]

definition dw_dma_irq_handler :: "dma_hdr \<Rightarrow> dma \<Rightarrow> dma" where
  "dw_dma_irq_handler h s =
     (let s1 = effect (TracePoint 0x9999) s;
          s2 = effect (IrqDisable (irq s1)) s1;
          (status_block, s3) = io_reg_read (base s2 + DW_STATUS_BLOCK) s2;
          s4 = (if status_block = 0 then s3 else irq_loop h 0 s3);
          s5 = effect (IrqClear (irq s4)) s4
      in effect (IrqEnable (irq s5)) s5)"

subsection \<open>dw\_dma\_setup and dw\_dma\_probe\<close>

definition dw_dma_setup :: "dma \<Rightarrow> int \<times> dma" where
  "dw_dma_setup s =
     (let s1 = io_reg_write (base s + DW_MASK_TFR) 0x0000ff00 s;
          s2 = io_reg_write (base s1 + DW_MASK_BLOCK) 0x0000ff00 s1;
          s3 = io_reg_write (base s2 + DW_MASK_SRC_TRAN) 0x0000ff00 s2;
          s4 = io_reg_write (base s3 + DW_MASK_DST_TRAN) 0x0000ff00 s3;
          s5 = io_reg_write (base s4 + DW_MASK_ERR) 0x0000ff00 s4;
          s6 = io_reg_write (base s5 + DW_DMA_CFG) 1 s5
      in (0, s6))"

text \<open>\<^verbatim>\<open>bzero\<close> leaves every field of every channel zero.\<close>

definition chan0 :: dma_chan_data where
  "chan0 = \<lparr>status = 0, lli = None, desc_count = 0, cfg_lo = 0, cfg_hi = 0, cb = 0, cb_data = 0\<rparr>"

text \<open>
  The private data is allocated with \<^verbatim>\<open>rmalloc\<close> and the pointer is not
  tested; \<open>allocated\<close> says whether the allocator returned a block.
\<close>

definition dw_dma_probe :: "bool \<Rightarrow> dma \<Rightarrow> fault + (int \<times> dma)" where
  "dw_dma_probe allocated s =
     (if \<not> allocated then Inl NullDeref
      else
        let s1 = s\<lparr>chan := (\<lambda>i. chan0)\<rparr>;
            (r, s2) = dw_dma_setup s1;
            s3 = effect WorkInit s2;
            s4 = effect (IrqRegister (irq s3)) s3;
            s5 = effect (IrqEnable (irq s4)) s4
        in Inr (0, s5))"

subsection \<open>Concrete inputs\<close>

text \<open>
  An instance of the header parameters, with the bit layout of the DesignWare
  controller's control and configuration words, and a device whose private data
  is all zero, as \<^verbatim>\<open>bzero\<close> leaves it in \<^verbatim>\<open>dw_dma_probe\<close>.
\<close>

definition hdr0 :: dma_hdr where
  "hdr0 = \<lparr>DMA_STATUS_FREE = 0, DMA_STATUS_IDLE = 1, DMA_STATUS_RUNNING = 2,
           DMA_STATUS_DRAINING = 4, DMA_DIR_MEM_TO_MEM = 0, DMA_DIR_MEM_TO_DEV = 1,
           DMA_DIR_DEV_TO_MEM = 2, DMA_DIR_DEV_TO_DEV = 3\<rparr>"

definition dw0 :: dw_hdr where
  "dw0 = \<lparr>DWC_CTLL_FC = (\<lambda>n. push_bit 20 n),
          DWC_CTLL_SRC_WIDTH = (\<lambda>n. push_bit 4 n),
          DWC_CTLL_DST_WIDTH = (\<lambda>n. push_bit 1 n),
          DWC_CTLL_SRC_MSIZE = (\<lambda>n. push_bit 14 n),
          DWC_CTLL_DST_MSIZE = (\<lambda>n. push_bit 11 n),
          DWC_CTLL_SRC_INC = 0, DWC_CTLL_DST_INC = 0,
          DWC_CTLL_SRC_FIX = 0x400, DWC_CTLL_DST_FIX = 0x100,
          DWC_CTLL_LLP_S_EN = 0x10000000, DWC_CTLL_LLP_D_EN = 0x8000000,
          DWC_CTLH_DONE = 0x1000,
          DWC_CFGH_SRC_PER = (\<lambda>n. push_bit 7 n),
          DWC_CFGH_DST_PER = (\<lambda>n. push_bit 11 n),
          DWC_CFGL_RELOAD_SAR = 0x40000000, DWC_CFGL_RELOAD_DAR = 0x80000000,
          sizeof_dw_lli1 = 28\<rparr>"

definition dma0 :: dma where
  "dma0 = \<lparr>base = 0xFF298000, irq = 9, chan = (\<lambda>i. chan0), regs = (\<lambda>r. 0), trace = []\<rparr>"

definition lli0 :: dw_lli1 where
  "lli0 = \<lparr>sar = 0, dar = 0, llp = 0, ctrl_lo = 0, ctrl_hi = 0\<rparr>"

text \<open>An allocator that returns zeroed memory at a fixed address, and one that fails.\<close>

definition alloc0 :: allocator where
  "alloc0 n = Some (0x1000, \<lambda>k. lli0)"

definition alloc_fail :: allocator where
  "alloc_fail n = None"

definition seg0 :: dma_sg_elem where "seg0 = \<lparr>src = 0x2000, dest = 0x8000\<rparr>"
definition seg1 :: dma_sg_elem where "seg1 = \<lparr>src = 0x2100, dest = 0x8000\<rparr>"
definition seg2 :: dma_sg_elem where "seg2 = \<lparr>src = 0x2200, dest = 0x8000\<rparr>"

text \<open>A memory-to-device request of three segments, and one of a single segment.\<close>

definition config3 :: dma_sg_config where
  "config3 = \<lparr>direction = 1, src_width = 2, dest_width = 2, elem_list = [seg0, seg1, seg2]\<rparr>"

definition config1 :: dma_sg_config where
  "config1 = \<lparr>direction = 1, src_width = 2, dest_width = 2, elem_list = [seg0]\<rparr>"

text \<open>A device with an interrupt pending: channels 2 and 5 are in use and have a
  callback, channel 4 is in use and has none, channel 1 is free with a stale callback.\<close>

definition irq_example :: dma where
  "irq_example = dma0\<lparr>chan := (chan dma0)
       (1 := chan0\<lparr>cb := 0x3000, cb_data := 0xC\<rparr>,
        2 := chan0\<lparr>status := 1, cb := 0x2000, cb_data := 0xB\<rparr>,
        4 := chan0\<lparr>status := 2\<rparr>,
        5 := chan0\<lparr>status := 2, cb := 0x1000, cb_data := 0xA\<rparr>),
      regs := (regs dma0)(base dma0 + DW_STATUS_BLOCK := 0x24)\<rparr>"

section \<open>Properties\<close>

lemma DW_MAX_CHAN_pos: "0 < DW_MAX_CHAN"
  by (simp add: DW_MAX_CHAN_def)

text \<open>After a probe every channel has a descriptor count of 0 and no chain.\<close>

lemma probe_channels:
  "dw_dma_probe True s = Inr (r, s') \<Longrightarrow> r = 0 \<and> chan s' i = chan0"
  by (auto simp: dw_dma_probe_def dw_dma_setup_def io_reg_write_def effect_def Let_def)

subsection \<open>Acquiring a channel\<close>

lemma channel_get_loop_find:
  assumes "DMA_STATUS_FREE h \<noteq> DMA_STATUS_DRAINING h"
  shows "channel_get_loop h i s =
     (case find (\<lambda>j. status (chan s j) = DMA_STATUS_FREE h) [i..<DW_MAX_CHAN] of
        None \<Rightarrow> (Inl ENODEV, s)
      | Some j \<Rightarrow>
          (Inr (int j),
           s\<lparr>chan := (chan s)(j := (chan s j)\<lparr>status := DMA_STATUS_IDLE h\<rparr>),
             regs := (regs s)
               (base s + DW_CLEAR_TFR := push_bit j 1,
                base s + DW_CLEAR_BLOCK := push_bit j 1,
                base s + DW_CLEAR_SRC_TRAN := push_bit j 1,
                base s + DW_CLEAR_DST_TRAN := push_bit j 1,
                base s + DW_CLEAR_ERR := push_bit j 1),
             trace := trace s @
               [RegWrite (base s + DW_CLEAR_TFR) (push_bit j 1),
                RegWrite (base s + DW_CLEAR_BLOCK) (push_bit j 1),
                RegWrite (base s + DW_CLEAR_SRC_TRAN) (push_bit j 1),
                RegWrite (base s + DW_CLEAR_DST_TRAN) (push_bit j 1),
                RegWrite (base s + DW_CLEAR_ERR) (push_bit j 1)]\<rparr>))"
  using assms
proof (induction h i s rule: channel_get_loop.induct)
  case (1 h i s)
  show ?case
  proof (cases "i < DW_MAX_CHAN")
    case False
    then show ?thesis by (subst channel_get_loop.simps) simp
  next
    case True
    then have upt: "[i..<DW_MAX_CHAN] = i # [Suc i..<DW_MAX_CHAN]"
      by (rule upt_conv_Cons)
    show ?thesis
    proof (cases "status (chan s i) = DMA_STATUS_FREE h")
      case free: True
      with 1(3) have nd: "status (chan s i) \<noteq> DMA_STATUS_DRAINING h" by simp
      show ?thesis
        by (subst channel_get_loop.simps)
           (simp add: True upt free 1(3) io_reg_write_def Let_def)
    next
      case nfree: False
      show ?thesis
      proof (cases "status (chan s i) = DMA_STATUS_DRAINING h")
        case True
        with 1(1)[OF \<open>i < DW_MAX_CHAN\<close> True 1(3)] nfree \<open>i < DW_MAX_CHAN\<close> upt show ?thesis
          by (subst channel_get_loop.simps) simp
      next
        case False
        with 1(2)[OF \<open>i < DW_MAX_CHAN\<close> False nfree 1(3)] nfree \<open>i < DW_MAX_CHAN\<close> upt show ?thesis
          by (subst channel_get_loop.simps) simp
      qed
    qed
  qed
qed


text \<open>
  Claim C1. Whatever the state of the pool, \<^verbatim>\<open>dw_dma_channel_get\<close> looks at
  the slots in ascending order of index. It returns the least index whose slot
  is free; that slot is not draining; the slot is set to idle and the five
  interrupt-clear registers (transfer, block, source transaction, destination
  transaction, error) are written with the channel's bit, in that order, and
  nothing else changes. It returns \<^verbatim>\<open>-ENODEV\<close>, changing nothing, exactly
  when no slot is free. The two status constants are those of the header, and
  they differ.
\<close>

theorem channel_get_first_free:
  assumes "DMA_STATUS_FREE h \<noteq> DMA_STATUS_DRAINING h"
  shows "(case dw_dma_channel_get h s of
            (Inl e, s') \<Rightarrow>
              e = ENODEV \<and> s' = s \<and> (\<forall>j<DW_MAX_CHAN. status (chan s j) \<noteq> DMA_STATUS_FREE h)
          | (Inr r, s') \<Rightarrow>
              (\<exists>j<DW_MAX_CHAN. r = int j
                 \<and> status (chan s j) = DMA_STATUS_FREE h
                 \<and> status (chan s j) \<noteq> DMA_STATUS_DRAINING h
                 \<and> (\<forall>k<j. status (chan s k) \<noteq> DMA_STATUS_FREE h)
                 \<and> s' = s\<lparr>chan := (chan s)(j := (chan s j)\<lparr>status := DMA_STATUS_IDLE h\<rparr>),
                          regs := (regs s)
                            (base s + DW_CLEAR_TFR := push_bit j 1,
                             base s + DW_CLEAR_BLOCK := push_bit j 1,
                             base s + DW_CLEAR_SRC_TRAN := push_bit j 1,
                             base s + DW_CLEAR_DST_TRAN := push_bit j 1,
                             base s + DW_CLEAR_ERR := push_bit j 1),
                          trace := trace s @
                            [RegWrite (base s + DW_CLEAR_TFR) (push_bit j 1),
                             RegWrite (base s + DW_CLEAR_BLOCK) (push_bit j 1),
                             RegWrite (base s + DW_CLEAR_SRC_TRAN) (push_bit j 1),
                             RegWrite (base s + DW_CLEAR_DST_TRAN) (push_bit j 1),
                             RegWrite (base s + DW_CLEAR_ERR) (push_bit j 1)]\<rparr>))
       \<and> ((fst (dw_dma_channel_get h s) = Inl ENODEV)
            = (\<forall>j<DW_MAX_CHAN. status (chan s j) \<noteq> DMA_STATUS_FREE h))"
proof (cases "find (\<lambda>j. status (chan s j) = DMA_STATUS_FREE h) [0..<DW_MAX_CHAN]")
  case None
  then have nofree: "\<forall>j<DW_MAX_CHAN. status (chan s j) \<noteq> DMA_STATUS_FREE h"
    by (simp add: find_None_iff)
  have "dw_dma_channel_get h s = (Inl ENODEV, s)"
    by (simp add: dw_dma_channel_get_def channel_get_loop_find [OF assms] None)
  with nofree show ?thesis by simp
next
  case (Some j)
  then obtain i where i: "i < DW_MAX_CHAN" "status (chan s ([0..<DW_MAX_CHAN] ! i)) = DMA_STATUS_FREE h"
      "j = [0..<DW_MAX_CHAN] ! i"
      "\<forall>k<i. status (chan s ([0..<DW_MAX_CHAN] ! k)) \<noteq> DMA_STATUS_FREE h"
    by (auto simp: find_Some_iff)
  from i have ji: "j = i" by simp
  from i ji have j: "j < DW_MAX_CHAN" "status (chan s j) = DMA_STATUS_FREE h"
    "\<forall>k<j. status (chan s k) \<noteq> DMA_STATUS_FREE h"
    by auto
  have res: "dw_dma_channel_get h s = (Inr (int j),
       s\<lparr>chan := (chan s)(j := (chan s j)\<lparr>status := DMA_STATUS_IDLE h\<rparr>),
         regs := (regs s)
           (base s + DW_CLEAR_TFR := push_bit j 1,
            base s + DW_CLEAR_BLOCK := push_bit j 1,
            base s + DW_CLEAR_SRC_TRAN := push_bit j 1,
            base s + DW_CLEAR_DST_TRAN := push_bit j 1,
            base s + DW_CLEAR_ERR := push_bit j 1),
         trace := trace s @
           [RegWrite (base s + DW_CLEAR_TFR) (push_bit j 1),
            RegWrite (base s + DW_CLEAR_BLOCK) (push_bit j 1),
            RegWrite (base s + DW_CLEAR_SRC_TRAN) (push_bit j 1),
            RegWrite (base s + DW_CLEAR_DST_TRAN) (push_bit j 1),
            RegWrite (base s + DW_CLEAR_ERR) (push_bit j 1)]\<rparr>)"
    by (simp only: dw_dma_channel_get_def channel_get_loop_find [OF assms] Some option.case)
  from j assms have nd: "status (chan s j) \<noteq> DMA_STATUS_DRAINING h" by simp
  have ex: "\<not> (\<forall>j<DW_MAX_CHAN. status (chan s j) \<noteq> DMA_STATUS_FREE h)"
    using j by blast
  show ?thesis
    unfolding res using j nd ex by (simp del: push_bit_of_1)
qed

lemma hdr0_free_not_draining: "DMA_STATUS_FREE hdr0 \<noteq> DMA_STATUS_DRAINING hdr0"
  by (simp add: hdr0_def)

theorem channel_get_first_free_witness:
  "DMA_STATUS_FREE hdr0 \<noteq> DMA_STATUS_DRAINING hdr0
   \<and> fst (dw_dma_channel_get hdr0 (dma0\<lparr>chan := (chan dma0)(0 := chan0\<lparr>status := 4\<rparr>, 1 := chan0\<lparr>status := 2\<rparr>)\<rparr>)) = Inr 2"
  using channel_get_first_free [OF hdr0_free_not_draining,
      of "dma0\<lparr>chan := (chan dma0)(0 := chan0\<lparr>status := 4\<rparr>, 1 := chan0\<lparr>status := 2\<rparr>)\<rparr>"]
  by (simp add: dw_dma_channel_get_def channel_get_loop.simps hdr0_def dma0_def chan0_def
      DW_MAX_CHAN_def io_reg_write_def Let_def)

subsection \<open>Stop and drain\<close>

lemma update_bits_sets: "(x AND NOT m) OR m = x OR (m::u32)"
  by (rule bit_word_eqI) (auto simp: bit_simps)

lemma io_reg_update_bits_set:
  "io_reg_update_bits reg m m s =
     s\<lparr>regs := (regs s)(reg := regs s reg OR m),
       trace := trace s @ [RegRead reg, RegWrite reg (regs s reg OR m)]\<rparr>"
  by (simp add: io_reg_update_bits_def io_reg_read_def io_reg_write_def update_bits_sets)

text \<open>
  Claim C8. For a channel index within the array, \<^verbatim>\<open>dw_dma_stop\<close> rewrites
  the channel's config-low register with the suspend bit set and every other
  bit as it was read, and \<^verbatim>\<open>dw_dma_drain\<close> rewrites it with the suspend bit
  and the drain bit set and every other bit as it was read. Both set the
  channel's status to draining, schedule the work (the drain poller) with a
  delay of 1, touch no other register or channel, and return 0.
\<close>

theorem stop_and_drain:
  assumes "chan_ok channel"
  shows "dw_dma_stop h s channel =
           Inr (0, s\<lparr>chan := (chan s)(nat channel :=
                        (chan s (nat channel))\<lparr>status := DMA_STATUS_DRAINING h\<rparr>),
                      regs := (regs s)(base s + DW_CFG_LOW (nat channel) :=
                        regs s (base s + DW_CFG_LOW (nat channel)) OR DW_CFG_CH_SUSPEND),
                      trace := trace s @
                        [RegRead (base s + DW_CFG_LOW (nat channel)),
                         RegWrite (base s + DW_CFG_LOW (nat channel))
                           (regs s (base s + DW_CFG_LOW (nat channel)) OR DW_CFG_CH_SUSPEND),
                         WorkSchedule 1]\<rparr>)
       \<and> dw_dma_drain h s channel =
           Inr (0, s\<lparr>chan := (chan s)(nat channel :=
                        (chan s (nat channel))\<lparr>status := DMA_STATUS_DRAINING h\<rparr>),
                      regs := (regs s)(base s + DW_CFG_LOW (nat channel) :=
                        regs s (base s + DW_CFG_LOW (nat channel))
                          OR (DW_CFG_CH_SUSPEND OR DW_CFG_CH_DRAIN)),
                      trace := trace s @
                        [RegRead (base s + DW_CFG_LOW (nat channel)),
                         RegWrite (base s + DW_CFG_LOW (nat channel))
                           (regs s (base s + DW_CFG_LOW (nat channel))
                              OR (DW_CFG_CH_SUSPEND OR DW_CFG_CH_DRAIN)),
                         WorkSchedule 1]\<rparr>)"
  using assms
  by (simp add: dw_dma_stop_def dw_dma_drain_def io_reg_update_bits_set effect_def Let_def)

theorem stop_and_drain_witness:
  "chan_ok 3
   \<and> (case dw_dma_stop hdr0 dma0 3 of Inl f \<Rightarrow> False
       | Inr (r, s') \<Rightarrow> r = 0 \<and> status (chan s' 3) = 4 \<and> regs s' (base dma0 + DW_CFG_LOW 3) = 0x100
            \<and> trace s' = [RegRead 0xFF298148, RegWrite 0xFF298148 0x100, WorkSchedule 1])
   \<and> (case dw_dma_drain hdr0 dma0 3 of Inl f \<Rightarrow> False
       | Inr (r, s') \<Rightarrow> r = 0 \<and> status (chan s' 3) = 4 \<and> regs s' (base dma0 + DW_CFG_LOW 3) = 0x500
            \<and> trace s' = [RegRead 0xFF298148, RegWrite 0xFF298148 0x500, WorkSchedule 1])"
proof -
  have ok: "chan_ok 3" by (simp add: chan_ok_def DW_MAX_CHAN_def)
  show ?thesis
    using ok stop_and_drain [OF ok, of hdr0 dma0]
    by (simp add: hdr0_def dma0_def chan0_def DW_CFG_LOW_def BYT_CHAN_OFFSET_def DW_CH_SIZE_def
        DW_CFG_CH_SUSPEND_def DW_CFG_CH_DRAIN_def)
qed

subsection \<open>Interrupt dispatch\<close>

lemma irq_loop_state:
  "irq_loop h i s =
     s\<lparr>regs := foldl (\<lambda>r j. r(base s + DW_MASK_BLOCK := INT_MASK j)) (regs s)
                (filter (\<lambda>j. status (chan s j) \<noteq> DMA_STATUS_FREE h \<and> cb (chan s j) \<noteq> 0)
                   [i..<DW_MAX_CHAN]),
       trace := trace s @ concat (map
                (\<lambda>j. [RegWrite (base s + DW_MASK_BLOCK) (INT_MASK j),
                      Callback (cb (chan s j)) (cb_data (chan s j))])
                (filter (\<lambda>j. status (chan s j) \<noteq> DMA_STATUS_FREE h \<and> cb (chan s j) \<noteq> 0)
                   [i..<DW_MAX_CHAN]))\<rparr>"
proof (induction h i s rule: irq_loop.induct)
  case (1 h i s)
  show ?case
  proof (cases "i < DW_MAX_CHAN")
    case False
    then show ?thesis by (subst irq_loop.simps) simp
  next
    case True
    then have upt: "[i..<DW_MAX_CHAN] = i # [Suc i..<DW_MAX_CHAN]"
      by (rule upt_conv_Cons)
    show ?thesis
    proof (cases "status (chan s i) \<noteq> DMA_STATUS_FREE h \<and> cb (chan s i) \<noteq> 0")
      case act: True
      show ?thesis
        apply (subst irq_loop.simps)
        apply (simp only: True act if_True Let_def)
        apply (subst 1(1) [OF True act refl refl])
        apply (simp add: upt act io_reg_write_def effect_def)
        done
    next
      case nact: False
      show ?thesis
        apply (subst irq_loop.simps)
        apply (simp only: True nact if_True if_False)
        apply (subst 1(2) [OF True nact])
        using nact apply (auto simp: upt)
        done
    qed
  qed
qed

text \<open>
  Claim C9. The interrupt handler disables the device's interrupt line and
  reads the block status register. When it reads zero the handler writes no
  register and calls no callback. When it reads another value, the handler goes
  through the channels in ascending order of index, and for each channel that is
  not free and has a callback it writes the block mask register with the
  channel's mask value and then calls the channel's callback with its data,
  nothing in between. In both cases the last two things it does are to clear
  and to enable the interrupt line. The channel array is left as it was. (A
  callback is the client's code: the model records the call and not what the
  client does in it.)
\<close>

theorem irq_handler_trace:
  "trace (dw_dma_irq_handler h s) =
     trace s @ [TracePoint 0x9999, IrqDisable (irq s), RegRead (base s + DW_STATUS_BLOCK)]
       @ (if regs s (base s + DW_STATUS_BLOCK) = 0 then []
          else concat (map
                (\<lambda>j. [RegWrite (base s + DW_MASK_BLOCK) (INT_MASK j),
                      Callback (cb (chan s j)) (cb_data (chan s j))])
                (filter (\<lambda>j. status (chan s j) \<noteq> DMA_STATUS_FREE h \<and> cb (chan s j) \<noteq> 0)
                   [0..<DW_MAX_CHAN])))
       @ [IrqClear (irq s), IrqEnable (irq s)]
   \<and> chan (dw_dma_irq_handler h s) = chan s"
  by (simp add: dw_dma_irq_handler_def effect_def io_reg_read_def irq_loop_state Let_def)

lemma upt_DW_MAX_CHAN: "[0..<DW_MAX_CHAN] = [0, 1, 2, 3, 4, 5, 6, 7]"
  by (simp add: DW_MAX_CHAN_def upt_conv_Cons)

theorem irq_handler_trace_witness:
  "trace (dw_dma_irq_handler hdr0 irq_example) =
     [TracePoint 0x9999, IrqDisable 9, RegRead 0xFF2982F0,
      RegWrite 0xFF298318 0x400, Callback 0x2000 0xB,
      RegWrite 0xFF298318 0x2000, Callback 0x1000 0xA,
      IrqClear 9, IrqEnable 9]
   \<and> trace (dw_dma_irq_handler hdr0 dma0) =
     [TracePoint 0x9999, IrqDisable 9, RegRead 0xFF2982F0, IrqClear 9, IrqEnable 9]"
  using irq_handler_trace [of hdr0 irq_example] irq_handler_trace [of hdr0 dma0]
  by (simp add: upt_DW_MAX_CHAN irq_example_def dma0_def chan0_def hdr0_def
      DW_STATUS_BLOCK_def DW_MASK_BLOCK_def INT_MASK_def)

subsection \<open>Building the descriptor chain\<close>

lemma count_elems_length: "count_elems es n = n + of_nat (length es)"
  by (induction es arbitrary: n) (auto simp: algebra_simps)

lemma fill_lli_ok:
  "i + length es \<le> length ds \<Longrightarrow> \<exists>ds' cl'. fill_lli w a i es ds cl = Inr (ds', cl')"
  by (induction es arbitrary: i ds cl) (auto simp: Let_def)

lemma fill_lli_length:
  "fill_lli w a i es ds cl = Inr (ds', cl') \<Longrightarrow> length ds' = length ds"
  by (induction es arbitrary: i ds cl) (auto simp: Let_def split: if_splits)

lemma fill_lli_other:
  "fill_lli w a i es ds cl = Inr (ds', cl') \<Longrightarrow> k < i \<or> i + length es \<le> k \<Longrightarrow> ds' ! k = ds ! k"
proof (induction es arbitrary: i ds cl)
  case Nil
  then show ?case by simp
next
  case (Cons e es)
  from Cons.prems(1) have len: "i < length ds" by (auto split: if_splits)
  from Cons.prems(2) have ki: "k \<noteq> i" and k': "k < Suc i \<or> Suc i + length es \<le> k" by auto
  from Cons.prems(1) len obtain d where "fill_lli w a (Suc i) es (ds[i := d]) (if es \<noteq> [] then cl else cl AND NOT (DWC_CFGL_RELOAD_SAR w OR DWC_CFGL_RELOAD_DAR w)) = Inr (ds', cl')"
    by (auto simp: Let_def split: if_splits)
  from Cons.IH [OF this k'] ki show ?case by simp
qed

lemma fill_lli_cfg:
  "fill_lli w a i es ds cl = Inr (ds', cl') \<Longrightarrow>
   cl' = (if es = [] then cl else cl AND NOT (DWC_CFGL_RELOAD_SAR w OR DWC_CFGL_RELOAD_DAR w))"
proof (induction es arbitrary: i ds cl)
  case Nil
  then show ?case by simp
next
  case (Cons e es)
  show ?case
  proof (cases "es = []")
    case True
    with Cons.prems show ?thesis by (auto simp: Let_def split: if_splits)
  next
    case False
    with Cons.prems obtain d where "fill_lli w a (Suc i) es (ds[i := d]) cl = Inr (ds', cl')"
      by (auto simp: Let_def split: if_splits)
    from Cons.IH [OF this] False show ?thesis by simp
  qed
qed

lemma fill_lli_nth:
  "fill_lli w a i es ds cl = Inr (ds', cl') \<Longrightarrow> j < length es \<Longrightarrow>
   ds' ! (i + j) = (ds ! (i + j))
     \<lparr>sar := src (es ! j), dar := dest (es ! j),
      llp := (if Suc j = length es then 0 else lli_addr w a (Suc (i + j))),
      ctrl_lo := (if Suc j = length es
                  then ctrl_lo (ds ! (i + j)) AND NOT (DWC_CTLL_LLP_S_EN w OR DWC_CTLL_LLP_D_EN w)
                  else ctrl_lo (ds ! (i + j)) OR (DWC_CTLL_LLP_S_EN w OR DWC_CTLL_LLP_D_EN w))\<rparr>"
proof (induction es arbitrary: i j ds cl)
  case Nil
  then show ?case by simp
next
  case (Cons e es)
  from Cons.prems(1) have len: "i < length ds" by (auto split: if_splits)
  define d4 where "d4 = (ds ! i)
     \<lparr>sar := src e, dar := dest e,
      llp := (if es = [] then 0 else lli_addr w a (Suc i)),
      ctrl_lo := (if es = []
                  then ctrl_lo (ds ! i) AND NOT (DWC_CTLL_LLP_S_EN w OR DWC_CTLL_LLP_D_EN w)
                  else ctrl_lo (ds ! i) OR (DWC_CTLL_LLP_S_EN w OR DWC_CTLL_LLP_D_EN w))\<rparr>"
  from Cons.prems(1) len obtain cl2 where rec: "fill_lli w a (Suc i) es (ds[i := d4]) cl2 = Inr (ds', cl')"
    by (auto simp: Let_def d4_def split: if_splits)
  show ?case
  proof (cases j)
    case 0
    have "ds' ! i = (ds[i := d4]) ! i"
      by (rule fill_lli_other [OF rec]) simp
    with len 0 show ?thesis by (simp add: d4_def)
  next
    case (Suc j')
    with Cons.prems(2) have j': "j' < length es" by simp
    have idx: "i + j = Suc i + j'" using Suc by simp
    have lst: "(Suc j = length (e # es)) = (Suc j' = length es)" using Suc by simp
    have elt: "(e # es) ! j = es ! j'" using Suc by simp
    have nth: "ds[i := d4] ! (Suc i + j') = ds ! (Suc i + j')" by simp
    show ?thesis
      using Cons.IH [OF rec j'] unfolding idx lst elt nth .
  qed
qed


lemma first_lli_fields:
  "sar (fst (first_lli h w config d chi)) = sar d"
  "dar (fst (first_lli h w config d chi)) = dar d"
  "llp (fst (first_lli h w config d chi)) = llp d"
  "ctrl_hi (fst (first_lli h w config d chi)) = ctrl_hi d AND NOT (DWC_CTLH_DONE w)"
  by (simp_all add: first_lli_def set_direction_def Let_def)

text \<open>
  A C \<^verbatim>\<open>int\<close> that is not negative, and the arithmetic of the first loop
  and of the size computation where nothing overflows.
\<close>

lemma s32_small:
  fixes x :: s32
  assumes "unat x < 2 ^ 31"
  shows "sint x = int (unat x)"
proof -
  from assms have "int (unat x) < 2 ^ 31"
    by (metis of_nat_less_iff of_nat_numeral of_nat_power)
  moreover have "- (2 ^ 31) \<le> int (unat x)"
    by (rule order_trans [of _ 0]) simp_all
  ultimately have "signed_take_bit 31 (int (unat x)) = int (unat x)"
    by (rule signed_take_bit_int_eq_self [rotated])
  moreover have "sint x = signed_take_bit (LENGTH(32) - Suc 0) (uint x)"
    by (rule sint_uint)
  ultimately show ?thesis by simp
qed

lemma s32_nonneg:
  fixes x :: s32
  assumes "0 \<le> sint x"
  shows "unat x < 2 ^ 31"
proof (rule ccontr)
  assume "\<not> unat x < 2 ^ 31"
  then have "2 ^ 31 \<le> unat x" by simp
  then have "2 ^ 31 \<le> int (unat x)"
    by (metis of_nat_le_iff of_nat_numeral of_nat_power)
  then have "signed_take_bit 31 (int (unat x)) \<le> int (unat x) - 2 ^ Suc 31"
    by (rule signed_take_bit_int_less_eq)
  then have a: "signed_take_bit 31 (int (unat x)) \<le> int (unat x) - 4294967296" by simp
  have b: "int (unat x) < 4294967296"
    using unsigned_less [of x, where ?'a = int] by simp
  have c: "sint x = signed_take_bit 31 (int (unat x))"
    using sint_uint [of x] by simp
  from a b c have "sint x < 0" by linarith
  with assms show False by simp
qed

lemma alloc_size:
  fixes old :: s32
  assumes nn: "0 \<le> sint old"
    and ns: "sint old + int n < 2 ^ 31"
    and nb: "int sz * (sint old + int n) < 2 ^ 32"
    and sz: "0 < sz"
    and n: "0 < n"
  shows "sint (old + of_nat n) = sint old + int n"
    and "unat (of_nat sz * (old + of_nat n) :: u32) = sz * nat (sint old + int n)"
    and "sz * nat (sint old + int n) div sz = nat (sint old + int n)"
proof -
  have old: "sint old = int (unat old)"
    by (rule s32_small) (rule s32_nonneg [OF nn])
  with ns have "int (unat old + n) < 2 ^ 31" by simp
  then have b31: "unat old + n < 2 ^ 31"
    by (metis of_nat_less_iff of_nat_numeral of_nat_power)
  then have b32: "unat old + n < 2 ^ 32" by simp
  then have "n < 2 ^ 32" by simp
  then have un: "unat (of_nat n :: s32) = n" by (simp add: unat_of_nat)
  with b32 have u: "unat (old + of_nat n) = unat old + n"
    by (simp add: unat_word_ariths)
  with b31 have "sint (old + of_nat n) = int (unat old + n)"
    by (simp add: s32_small)
  with old show s: "sint (old + of_nat n) = sint old + int n" by simp
  from old have "sint old + int n = int (unat old + n)" by simp
  then have m: "nat (sint old + int n) = unat old + n" by (simp only: nat_int)
  from nb old have "int sz * int (unat old + n) < 2 ^ 32" by simp
  then have "int (sz * (unat old + n)) < 2 ^ 32" by simp
  then have p: "sz * (unat old + n) < 2 ^ 32"
    by (metis of_nat_less_iff of_nat_numeral of_nat_power)
  moreover from n have "sz \<le> sz * (unat old + n)" by simp
  ultimately have "sz < 2 ^ 32" by linarith
  then have us: "unat (of_nat sz :: u32) = sz" by (simp add: unat_of_nat)
  from p us u have "unat (of_nat sz * (old + of_nat n) :: u32) = sz * (unat old + n)"
    by (simp add: unat_word_ariths)
  with m show "unat (of_nat sz * (old + of_nat n) :: u32) = sz * nat (sint old + int n)"
    by simp
  from sz show "sz * nat (sint old + int n) div sz = nat (sint old + int n)" by simp
qed

lemma set_config_result:
  assumes ok: "chan_ok channel"
    and ne: "elem_list config \<noteq> []"
    and nn: "0 \<le> sint (desc_count (chan s (nat channel)))"
    and ns: "sint (desc_count (chan s (nat channel))) + int (length (elem_list config)) < 2 ^ 31"
    and sz: "0 < sizeof_dw_lli1 w"
    and nb: "int (sizeof_dw_lli1 w) *
               (sint (desc_count (chan s (nat channel))) + int (length (elem_list config))) < 2 ^ 32"
    and al: "rmalloc (sizeof_dw_lli1 w *
               nat (sint (desc_count (chan s (nat channel))) + int (length (elem_list config))))
             = Some (a, mem)"
  shows "\<exists>ds. dw_dma_set_config h w rmalloc s channel config =
            Inr (0, s\<lparr>chan := (chan s)(nat channel := (chan s (nat channel))
                 \<lparr>lli := Some (a, ds),
                  desc_count := desc_count (chan s (nat channel))
                                  + of_nat (length (elem_list config)),
                  cfg_lo := cfg_lo (chan s (nat channel))
                              AND NOT (DWC_CFGL_RELOAD_SAR w OR DWC_CFGL_RELOAD_DAR w),
                  cfg_hi := snd (first_lli h w config (mem 0) (cfg_hi (chan s (nat channel))))\<rparr>)\<rparr>)
          \<and> sint (desc_count (chan s (nat channel)) + of_nat (length (elem_list config)))
              = sint (desc_count (chan s (nat channel))) + int (length (elem_list config))
          \<and> int (length ds)
              = sint (desc_count (chan s (nat channel))) + int (length (elem_list config))
          \<and> (\<forall>k<length (elem_list config).
                ds ! k = (if k = 0 then fst (first_lli h w config (mem 0) (cfg_hi (chan s (nat channel))))
                          else mem k)
                  \<lparr>sar := src (elem_list config ! k), dar := dest (elem_list config ! k),
                   llp := (if Suc k = length (elem_list config) then 0
                           else lli_addr w a (Suc k)),
                   ctrl_lo :=
                     (if Suc k = length (elem_list config)
                      then ctrl_lo (if k = 0 then fst (first_lli h w config (mem 0) (cfg_hi (chan s (nat channel)))) else mem k)
                             AND NOT (DWC_CTLL_LLP_S_EN w OR DWC_CTLL_LLP_D_EN w)
                      else ctrl_lo (if k = 0 then fst (first_lli h w config (mem 0) (cfg_hi (chan s (nat channel)))) else mem k)
                             OR (DWC_CTLL_LLP_S_EN w OR DWC_CTLL_LLP_D_EN w))\<rparr>)
          \<and> (\<forall>k. length (elem_list config) \<le> k \<and> k < length ds \<longrightarrow> ds ! k = mem k)"
proof -
  define c where "c = nat channel"
  define es where "es = elem_list config"
  define old where "old = desc_count (chan s c)"
  define n where "n = nat (sint old + int (length es))"
  define d7 where "d7 = fst (first_lli h w config (mem 0) (cfg_hi (chan s c)))"
  define ch where "ch = snd (first_lli h w config (mem 0) (cfg_hi (chan s c)))"
  define ds0 where "ds0 = d7 # map mem [Suc 0..<n]"
  from ne have pos: "0 < length es" by (simp add: es_def)
  have nn': "0 \<le> sint old" and ns': "sint old + int (length es) < 2 ^ 31"
    and nb': "int (sizeof_dw_lli1 w) * (sint old + int (length es)) < 2 ^ 32"
    using nn ns nb by (simp_all add: old_def c_def es_def)
  note sizes = alloc_size [OF nn' ns' nb' sz pos]
  from nn' pos have npos: "0 < n" and nlen: "length es \<le> n" and nint: "int n = sint old + int (length es)"
    unfolding n_def by linarith+
  from npos have upt: "[0..<n] = 0 # [Suc 0..<n]" by (simp add: upt_conv_Cons)
  have len0: "length ds0 = n" using npos by (simp add: ds0_def)
  have ds0_nth: "ds0 ! k = (if k = 0 then d7 else mem k)" if "k < n" for k
    using that by (cases k) (simp_all add: ds0_def)
  from nlen len0 have "0 + length es \<le> length ds0" by simp
  from fill_lli_ok [OF this] obtain ds cl
    where fill: "fill_lli w a 0 es ds0 (cfg_lo (chan s c)) = Inr (ds, cl)" by blast
  have len: "length ds = n" using fill_lli_length [OF fill] len0 by simp
  have cl: "cl = cfg_lo (chan s c) AND NOT (DWC_CFGL_RELOAD_SAR w OR DWC_CFGL_RELOAD_DAR w)"
    using fill_lli_cfg [OF fill] ne by (simp add: es_def)
  have cnt: "count_elems (elem_list config) (desc_count (chan s (nat channel)))
               = old + of_nat (length es)"
    by (simp add: count_elems_length old_def c_def es_def)
  have bytes: "unat (of_nat (sizeof_dw_lli1 w) * (old + of_nat (length es)) :: u32)
                 = sizeof_dw_lli1 w * n"
    and slots: "sizeof_dw_lli1 w * n div sizeof_dw_lli1 w = n"
    using sizes(2,3) by (simp_all only: n_def)
  have al': "rmalloc (sizeof_dw_lli1 w * n) = Some (a, mem)"
    using al by (simp only: n_def old_def c_def es_def)
  have fl: "first_lli h w config (mem 0) (cfg_hi (chan s (nat channel))) = (d7, ch)"
    by (simp add: d7_def ch_def c_def)
  have fill': "fill_lli w a 0 (elem_list config) (d7 # map mem [Suc 0..<n])
                 (cfg_lo (chan s (nat channel))) = Inr (ds, cl)"
    using fill by (simp only: ds0_def es_def c_def)
  have res: "dw_dma_set_config h w rmalloc s channel config =
      Inr (0, s\<lparr>chan := (chan s)(nat channel := (chan s (nat channel))
           \<lparr>lli := Some (a, ds), desc_count := old + of_nat (length es),
            cfg_lo := cl, cfg_hi := ch\<rparr>)\<rparr>)"
    using ok
    by (simp add: dw_dma_set_config_def Let_def cnt bytes slots al' upt fl fill')
  have nth: "ds ! k = (if k = 0 then d7 else mem k)
       \<lparr>sar := src (es ! k), dar := dest (es ! k),
        llp := (if Suc k = length es then 0 else lli_addr w a (Suc k)),
        ctrl_lo := (if Suc k = length es
                    then ctrl_lo (if k = 0 then d7 else mem k)
                           AND NOT (DWC_CTLL_LLP_S_EN w OR DWC_CTLL_LLP_D_EN w)
                    else ctrl_lo (if k = 0 then d7 else mem k)
                           OR (DWC_CTLL_LLP_S_EN w OR DWC_CTLL_LLP_D_EN w))\<rparr>"
    if "k < length es" for k
  proof -
    from that nlen have "k < n" by simp
    from fill_lli_nth [OF fill that] ds0_nth [OF this] show ?thesis by simp
  qed
  have rest: "ds ! k = mem k" if "length es \<le> k" "k < length ds" for k
  proof -
    from that have "k < 0 \<or> 0 + length es \<le> k" by simp
    from fill_lli_other [OF fill this] have "ds ! k = ds0 ! k" .
    moreover from that pos have "k \<noteq> 0" by linarith
    ultimately show ?thesis using ds0_nth [of k] that len by simp
  qed
  have lint: "int (length ds) = sint old + int (length es)"
    using len nint by simp
  show ?thesis
    apply (rule exI [of _ ds])
    unfolding res
    using lint cl nth rest sizes(1)
    apply (simp only: c_def es_def old_def d7_def ch_def)
    apply blast
    done
qed

lemma s32_zero: "(sint (x :: s32) = 0) = (x = 0)"
  by (metis signed_0 signed_word_eqI)


lemmas eval_defs =
  dw_dma_set_config_def first_lli_def set_direction_def lli_addr_def chan_ok_def
  DW_MAX_CHAN_def hdr0_def dw0_def dma0_def chan0_def lli0_def alloc0_def alloc_fail_def
  config3_def config1_def seg0_def seg1_def seg2_def Let_def upt_conv_Cons

lemma hyps_dma0_config3:
  "chan_ok 0" "elem_list config3 \<noteq> []" "0 \<le> sint (desc_count (chan dma0 (nat 0)))"
  "sint (desc_count (chan dma0 (nat 0))) + int (length (elem_list config3)) < 2 ^ 31"
  "0 < sizeof_dw_lli1 dw0"
  "int (sizeof_dw_lli1 dw0) *
     (sint (desc_count (chan dma0 (nat 0))) + int (length (elem_list config3))) < 2 ^ 32"
  "alloc0 (sizeof_dw_lli1 dw0 *
     nat (sint (desc_count (chan dma0 (nat 0))) + int (length (elem_list config3))))
   = Some (0x1000, \<lambda>k. lli0)"
  by (simp_all add: chan_ok_def DW_MAX_CHAN_def config3_def dma0_def chan0_def dw0_def alloc0_def)



lemma first_lli_mem_to_dev_ctrl_lo:
  assumes "direction config = DMA_DIR_MEM_TO_DEV h"
    and "DMA_DIR_MEM_TO_MEM h \<noteq> DMA_DIR_MEM_TO_DEV h"
  shows "ctrl_lo (fst (first_lli h w config d chi)) =
           (((((ctrl_lo d OR DWC_CTLL_FC w (DMA_DIR_MEM_TO_DEV h))
                 OR DWC_CTLL_SRC_WIDTH w (src_width config))
                OR DWC_CTLL_DST_WIDTH w (dest_width config))
               OR DWC_CTLL_SRC_MSIZE w 0)
              OR DWC_CTLL_DST_MSIZE w 0)
             OR (DWC_CTLL_SRC_INC w OR DWC_CTLL_DST_FIX w)"
  using assms by (simp add: first_lli_def set_direction_def Let_def)

text \<open>
  Claim C3, as amended. For a memory-to-device request of \<open>N \<ge> 1\<close> segments,
  on a channel index within the array and with the block allocated, the
  source-increment and destination-fixed flag values are written into the
  control-low word of the first descriptor only. That word is what the
  allocated memory held there (the function does not clear it) with the
  transfer type, the two widths, the two burst sizes and then the two
  addressing flag values OR-ed in, in that order, and last the two link-enable
  flags set (\<open>N > 1\<close>) or cleared (\<open>N = 1\<close>). In every later descriptor the
  control-low word is what the allocated memory held with only the two
  link-enable flags set or cleared: no addressing flag is written to it. (The
  header's direction constants are distinct; the count is not negative and
  nothing overflows.)
\<close>

theorem set_config_mem_to_dev_first:
  assumes ok: "chan_ok channel"
    and ne: "elem_list config \<noteq> []"
    and nn: "0 \<le> sint (desc_count (chan s (nat channel)))"
    and ns: "sint (desc_count (chan s (nat channel))) + int (length (elem_list config)) < 2 ^ 31"
    and sz: "0 < sizeof_dw_lli1 w"
    and nb: "int (sizeof_dw_lli1 w) *
               (sint (desc_count (chan s (nat channel))) + int (length (elem_list config))) < 2 ^ 32"
    and al: "rmalloc (sizeof_dw_lli1 w *
               nat (sint (desc_count (chan s (nat channel))) + int (length (elem_list config))))
             = Some (a, mem)"
    and dir: "direction config = DMA_DIR_MEM_TO_DEV h"
    and dist: "DMA_DIR_MEM_TO_MEM h \<noteq> DMA_DIR_MEM_TO_DEV h"
  shows "\<exists>s' ds. dw_dma_set_config h w rmalloc s channel config = Inr (0, s')
          \<and> lli (chan s' (nat channel)) = Some (a, ds)
          \<and> ctrl_lo (ds ! 0) =
              (if length (elem_list config) = 1
               then ((((((ctrl_lo (mem 0) OR DWC_CTLL_FC w (DMA_DIR_MEM_TO_DEV h))
                          OR DWC_CTLL_SRC_WIDTH w (src_width config))
                         OR DWC_CTLL_DST_WIDTH w (dest_width config))
                        OR DWC_CTLL_SRC_MSIZE w 0)
                       OR DWC_CTLL_DST_MSIZE w 0)
                      OR (DWC_CTLL_SRC_INC w OR DWC_CTLL_DST_FIX w))
                    AND NOT (DWC_CTLL_LLP_S_EN w OR DWC_CTLL_LLP_D_EN w)
               else ((((((ctrl_lo (mem 0) OR DWC_CTLL_FC w (DMA_DIR_MEM_TO_DEV h))
                          OR DWC_CTLL_SRC_WIDTH w (src_width config))
                         OR DWC_CTLL_DST_WIDTH w (dest_width config))
                        OR DWC_CTLL_SRC_MSIZE w 0)
                       OR DWC_CTLL_DST_MSIZE w 0)
                      OR (DWC_CTLL_SRC_INC w OR DWC_CTLL_DST_FIX w))
                    OR (DWC_CTLL_LLP_S_EN w OR DWC_CTLL_LLP_D_EN w))
          \<and> (\<forall>k. 0 < k \<and> k < length (elem_list config) \<longrightarrow>
                ctrl_lo (ds ! k) =
                  (if Suc k = length (elem_list config)
                   then ctrl_lo (mem k) AND NOT (DWC_CTLL_LLP_S_EN w OR DWC_CTLL_LLP_D_EN w)
                   else ctrl_lo (mem k) OR (DWC_CTLL_LLP_S_EN w OR DWC_CTLL_LLP_D_EN w)))"
proof -
  define F where "F = DWC_CTLL_LLP_S_EN w OR DWC_CTLL_LLP_D_EN w"
  define X where "X = (((((ctrl_lo (mem 0) OR DWC_CTLL_FC w (DMA_DIR_MEM_TO_DEV h))
                 OR DWC_CTLL_SRC_WIDTH w (src_width config))
                OR DWC_CTLL_DST_WIDTH w (dest_width config))
               OR DWC_CTLL_SRC_MSIZE w 0)
              OR DWC_CTLL_DST_MSIZE w 0)
             OR (DWC_CTLL_SRC_INC w OR DWC_CTLL_DST_FIX w)"
  define pre where "pre k = (if k = 0
      then fst (first_lli h w config (mem 0) (cfg_hi (chan s (nat channel)))) else mem k)" for k
  from set_config_result [where rmalloc = rmalloc and mem = mem and h = h, OF ok ne nn ns sz nb al]
  obtain s' ds where
    res: "dw_dma_set_config h w rmalloc s channel config = Inr (0, s')"
    and att: "lli (chan s' (nat channel)) = Some (a, ds)"
    and nth: "\<forall>k<length (elem_list config).
      ds ! k = (pre k)\<lparr>sar := src (elem_list config ! k), dar := dest (elem_list config ! k),
                 llp := (if Suc k = length (elem_list config) then 0 else lli_addr w a (Suc k)),
                 ctrl_lo := (if Suc k = length (elem_list config)
                             then ctrl_lo (pre k) AND NOT F else ctrl_lo (pre k) OR F)\<rparr>"
    unfolding F_def pre_def by fastforce
  from ne have pos: "0 < length (elem_list config)" by simp
  have first: "ctrl_lo (pre 0) = X"
    unfolding pre_def X_def using first_lli_mem_to_dev_ctrl_lo [OF dir dist] by simp
  from nth pos have "ctrl_lo (ds ! 0) =
      (if Suc 0 = length (elem_list config) then ctrl_lo (pre 0) AND NOT F else ctrl_lo (pre 0) OR F)"
    by simp
  moreover have "(Suc 0 = length (elem_list config)) = (length (elem_list config) = 1)"
    by auto
  ultimately have head: "ctrl_lo (ds ! 0) =
      (if length (elem_list config) = 1 then X AND NOT F else X OR F)"
    unfolding first by (simp only:)
  have others: "ctrl_lo (ds ! k) =
        (if Suc k = length (elem_list config) then ctrl_lo (mem k) AND NOT F else ctrl_lo (mem k) OR F)"
    if "0 < k" "k < length (elem_list config)" for k
    using nth that by (simp add: pre_def)
  from res att head others show ?thesis
    unfolding F_def X_def by blast
qed

theorem set_config_mem_to_dev_first_witness:
  "chan_ok 0 \<and> elem_list config3 \<noteq> [] \<and> 0 \<le> sint (desc_count (chan dma0 (nat 0)))
   \<and> sint (desc_count (chan dma0 (nat 0))) + int (length (elem_list config3)) < 2 ^ 31
   \<and> 0 < sizeof_dw_lli1 dw0
   \<and> int (sizeof_dw_lli1 dw0) *
        (sint (desc_count (chan dma0 (nat 0))) + int (length (elem_list config3))) < 2 ^ 32
   \<and> alloc0 (sizeof_dw_lli1 dw0 *
        nat (sint (desc_count (chan dma0 (nat 0))) + int (length (elem_list config3))))
       = Some (0x1000, \<lambda>k. lli0)
   \<and> direction config3 = DMA_DIR_MEM_TO_DEV hdr0
   \<and> DMA_DIR_MEM_TO_MEM hdr0 \<noteq> DMA_DIR_MEM_TO_DEV hdr0
   \<and> (case dw_dma_set_config hdr0 dw0 alloc0 dma0 0 config3 of
         Inl f \<Rightarrow> False
       | Inr (r, s') \<Rightarrow> r = 0 \<and>
           (case lli (chan s' 0) of
              None \<Rightarrow> False
            | Some (a, ds) \<Rightarrow> map ctrl_lo ds = [0x18100124, 0x18000000, 0]))"
proof -
  have h5: "direction config3 = DMA_DIR_MEM_TO_DEV hdr0" by (simp add: config3_def hdr0_def)
  have h6: "DMA_DIR_MEM_TO_MEM hdr0 \<noteq> DMA_DIR_MEM_TO_DEV hdr0" by (simp add: hdr0_def)
  show ?thesis
    using hyps_dma0_config3 h5 h6
      set_config_mem_to_dev_first [where rmalloc = alloc0 and mem = "\<lambda>k. lli0" and h = hdr0,
        OF hyps_dma0_config3 h5 h6]
    by (simp add: eval_defs)
qed

text \<open>
  Claim C3 as it is stated fails: for the memory-to-device request of three
  segments, on zeroed memory, the second descriptor of the chain does not have
  the destination-fixed flag.
\<close>

theorem set_config_mem_to_dev_counterexample:
  "direction config3 = DMA_DIR_MEM_TO_DEV hdr0
   \<and> (case dw_dma_set_config hdr0 dw0 alloc0 dma0 0 config3 of
         Inl f \<Rightarrow> False
       | Inr (r, s') \<Rightarrow>
           (case lli (chan s' 0) of
              None \<Rightarrow> False
            | Some (a, ds) \<Rightarrow>
                ctrl_lo (ds ! 1) AND (DWC_CTLL_SRC_INC dw0 OR DWC_CTLL_DST_FIX dw0)
                  \<noteq> DWC_CTLL_SRC_INC dw0 OR DWC_CTLL_DST_FIX dw0))"
  by (simp add: eval_defs)

text \<open>
  Claim C10. \<^verbatim>\<open>dw_dma_set_config\<close> adds the number of segments of the
  request to the channel's \<^verbatim>\<open>desc_count\<close> without resetting it, and the
  array it allocates has that many descriptors: the count before the call plus
  \<open>N\<close>. So the array has exactly \<open>N\<close> descriptors only when the count was 0
  before the call, and a second call on the same channel leaves the count at,
  and allocates an array of, the count before the first call plus the segments
  of both requests. The count is a C \<^verbatim>\<open>int\<close> and the size a 32-bit
  product: this holds while the count is not negative and neither the count nor
  the size in bytes overflows.
\<close>

theorem set_config_desc_count_accumulates:
  assumes ok: "chan_ok channel"
    and nn: "0 \<le> sint (desc_count (chan s (nat channel)))"
    and ne1: "elem_list c1 \<noteq> []"
    and ne2: "elem_list c2 \<noteq> []"
    and ns: "sint (desc_count (chan s (nat channel))) + int (length (elem_list c1))
               + int (length (elem_list c2)) < 2 ^ 31"
    and sz: "0 < sizeof_dw_lli1 w"
    and nb: "int (sizeof_dw_lli1 w) *
               (sint (desc_count (chan s (nat channel))) + int (length (elem_list c1))
                  + int (length (elem_list c2))) < 2 ^ 32"
    and al1: "rm1 (sizeof_dw_lli1 w *
                nat (sint (desc_count (chan s (nat channel))) + int (length (elem_list c1))))
              = Some (a1, m1)"
    and al2: "rm2 (sizeof_dw_lli1 w *
                nat (sint (desc_count (chan s (nat channel))) + int (length (elem_list c1))
                       + int (length (elem_list c2))))
              = Some (a2, m2)"
  shows "\<exists>s1 ds1 s2 ds2.
           dw_dma_set_config h w rm1 s channel c1 = Inr (0, s1)
         \<and> desc_count (chan s1 (nat channel))
             = desc_count (chan s (nat channel)) + of_nat (length (elem_list c1))
         \<and> sint (desc_count (chan s1 (nat channel)))
             = sint (desc_count (chan s (nat channel))) + int (length (elem_list c1))
         \<and> lli (chan s1 (nat channel)) = Some (a1, ds1)
         \<and> int (length ds1)
             = sint (desc_count (chan s (nat channel))) + int (length (elem_list c1))
         \<and> ((length ds1 = length (elem_list c1)) = (desc_count (chan s (nat channel)) = 0))
         \<and> dw_dma_set_config h w rm2 s1 channel c2 = Inr (0, s2)
         \<and> desc_count (chan s2 (nat channel))
             = desc_count (chan s (nat channel)) + of_nat (length (elem_list c1))
                 + of_nat (length (elem_list c2))
         \<and> sint (desc_count (chan s2 (nat channel)))
             = sint (desc_count (chan s (nat channel))) + int (length (elem_list c1))
                 + int (length (elem_list c2))
         \<and> lli (chan s2 (nat channel)) = Some (a2, ds2)
         \<and> int (length ds2)
             = sint (desc_count (chan s (nat channel))) + int (length (elem_list c1))
                 + int (length (elem_list c2))"
proof -
  define old where "old = desc_count (chan s (nat channel))"
  define n1 where "n1 = length (elem_list c1)"
  define n2 where "n2 = length (elem_list c2)"
  note defs = old_def n1_def n2_def
  have ns1: "sint old + int n1 < 2 ^ 31"
    using ns unfolding defs [symmetric] by linarith
  have "0 \<le> int (sizeof_dw_lli1 w) * int n2" by simp
  then have "int (sizeof_dw_lli1 w) * (sint old + int n1)
      \<le> int (sizeof_dw_lli1 w) * (sint old + int n1 + int n2)"
    by (simp add: distrib_left)
  with nb have nb1: "int (sizeof_dw_lli1 w) * (sint old + int n1) < 2 ^ 32"
    unfolding defs [symmetric] by linarith
  from set_config_result [where rmalloc = rm1 and mem = m1 and h = h,
      OF ok ne1 nn ns1 [unfolded defs] sz nb1 [unfolded defs] al1]
  obtain s1 ds1 where
    r1: "dw_dma_set_config h w rm1 s channel c1 = Inr (0, s1)"
    and d1: "desc_count (chan s1 (nat channel)) = old + of_nat n1"
    and v1: "sint (old + of_nat n1) = sint old + int n1"
    and l1: "lli (chan s1 (nat channel)) = Some (a1, ds1)"
    and i1: "int (length ds1) = sint old + int n1"
    unfolding defs [symmetric] by fastforce
  from d1 v1 have sv1: "sint (desc_count (chan s1 (nat channel))) = sint old + int n1" by simp
  from nn sv1 have nn': "0 \<le> sint (desc_count (chan s1 (nat channel)))"
    unfolding defs [symmetric] by simp
  have ns': "sint (desc_count (chan s1 (nat channel))) + int (length (elem_list c2)) < 2 ^ 31"
    using ns sv1 unfolding defs [symmetric] by simp
  have nb': "int (sizeof_dw_lli1 w) *
      (sint (desc_count (chan s1 (nat channel))) + int (length (elem_list c2))) < 2 ^ 32"
    using nb sv1 unfolding defs [symmetric] by simp
  have al2': "rm2 (sizeof_dw_lli1 w *
      nat (sint (desc_count (chan s1 (nat channel))) + int (length (elem_list c2))))
      = Some (a2, m2)"
    using al2 sv1 unfolding defs [symmetric] by simp
  from set_config_result [where rmalloc = rm2 and mem = m2 and h = h,
      OF ok ne2 nn' ns' sz nb' al2']
  obtain s2 ds2 where
    r2: "dw_dma_set_config h w rm2 s1 channel c2 = Inr (0, s2)"
    and d2: "desc_count (chan s2 (nat channel)) = desc_count (chan s1 (nat channel)) + of_nat n2"
    and v2: "sint (desc_count (chan s1 (nat channel)) + of_nat n2)
               = sint (desc_count (chan s1 (nat channel))) + int n2"
    and l2: "lli (chan s2 (nat channel)) = Some (a2, ds2)"
    and i2: "int (length ds2) = sint (desc_count (chan s1 (nat channel))) + int n2"
    unfolding defs [symmetric] by fastforce
  from i1 have "(length ds1 = n1) = (sint old = 0)" by linarith
  then have z: "(length ds1 = n1) = (old = 0)" by (simp only: s32_zero)
  from d2 d1 have d2': "desc_count (chan s2 (nat channel)) = old + of_nat n1 + of_nat n2" by simp
  from d2 v2 sv1 have sv2: "sint (desc_count (chan s2 (nat channel))) = sint old + int n1 + int n2"
    by simp
  from i2 sv1 have i2': "int (length ds2) = sint old + int n1 + int n2" by simp
  from r1 d1 sv1 l1 i1 z r2 d2' sv2 l2 i2' show ?thesis
    unfolding defs by blast
qed

theorem set_config_desc_count_accumulates_witness:
  "chan_ok 0 \<and> 0 \<le> sint (desc_count (chan dma0 (nat 0)))
   \<and> elem_list config3 \<noteq> [] \<and> elem_list config1 \<noteq> []
   \<and> sint (desc_count (chan dma0 (nat 0))) + int (length (elem_list config3))
        + int (length (elem_list config1)) < 2 ^ 31
   \<and> 0 < sizeof_dw_lli1 dw0
   \<and> int (sizeof_dw_lli1 dw0) *
        (sint (desc_count (chan dma0 (nat 0))) + int (length (elem_list config3))
           + int (length (elem_list config1))) < 2 ^ 32
   \<and> alloc0 (sizeof_dw_lli1 dw0 *
        nat (sint (desc_count (chan dma0 (nat 0))) + int (length (elem_list config3))))
       = Some (0x1000, \<lambda>k. lli0)
   \<and> alloc0 (sizeof_dw_lli1 dw0 *
        nat (sint (desc_count (chan dma0 (nat 0))) + int (length (elem_list config3))
               + int (length (elem_list config1))))
       = Some (0x1000, \<lambda>k. lli0)
   \<and> (case dw_dma_set_config hdr0 dw0 alloc0 dma0 0 config3 of
         Inl f \<Rightarrow> False
       | Inr (r1, s1) \<Rightarrow>
           desc_count (chan s1 0) = 3
         \<and> (case lli (chan s1 0) of None \<Rightarrow> False | Some (a, ds) \<Rightarrow> length ds = 3)
         \<and> (case dw_dma_set_config hdr0 dw0 alloc0 s1 0 config1 of
               Inl f \<Rightarrow> False
             | Inr (r2, s2) \<Rightarrow>
                 desc_count (chan s2 0) = 4
               \<and> (case lli (chan s2 0) of None \<Rightarrow> False | Some (a, ds) \<Rightarrow> length ds = 4)))"
proof -
  have h1: "chan_ok 0" by (simp add: chan_ok_def DW_MAX_CHAN_def)
  have h2: "0 \<le> sint (desc_count (chan dma0 (nat 0)))" by (simp add: dma0_def chan0_def)
  have h3: "elem_list config3 \<noteq> []" by (simp add: config3_def)
  have h4: "elem_list config1 \<noteq> []" by (simp add: config1_def)
  have h5: "sint (desc_count (chan dma0 (nat 0))) + int (length (elem_list config3))
        + int (length (elem_list config1)) < 2 ^ 31"
    by (simp add: dma0_def chan0_def config3_def config1_def)
  have h6: "0 < sizeof_dw_lli1 dw0" by (simp add: dw0_def)
  have h7: "int (sizeof_dw_lli1 dw0) *
        (sint (desc_count (chan dma0 (nat 0))) + int (length (elem_list config3))
           + int (length (elem_list config1))) < 2 ^ 32"
    by (simp add: dma0_def chan0_def config3_def config1_def dw0_def)
  have h8: "alloc0 (sizeof_dw_lli1 dw0 *
        nat (sint (desc_count (chan dma0 (nat 0))) + int (length (elem_list config3))))
       = Some (0x1000, \<lambda>k. lli0)" by (simp add: alloc0_def)
  have h9: "alloc0 (sizeof_dw_lli1 dw0 *
        nat (sint (desc_count (chan dma0 (nat 0))) + int (length (elem_list config3))
               + int (length (elem_list config1))))
       = Some (0x1000, \<lambda>k. lli0)" by (simp add: alloc0_def)
  show ?thesis
    using h1 h2 h3 h4 h5 h6 h7 h8 h9
      set_config_desc_count_accumulates [where ?rm1.0 = alloc0 and ?rm2.0 = alloc0
        and ?m1.0 = "\<lambda>k. lli0" and ?m2.0 = "\<lambda>k. lli0" and h = hdr0,
        OF h1 h2 h3 h4 h5 h6 h7 h8 h9]
    by (simp add: eval_defs)
qed

subsection \<open>Where the driver dereferences a null pointer\<close>

lemma set_config_null:
  assumes "chan_ok channel"
    and "rmalloc (unat (of_nat (sizeof_dw_lli1 w)
             * count_elems (elem_list config) (desc_count (chan s (nat channel))) :: u32)) = None"
  shows "dw_dma_set_config h w rmalloc s channel config = Inl NullDeref"
  using assms by (simp add: dw_dma_set_config_def Let_def)

lemma start_null:
  assumes "chan_ok channel" and "lli (chan s (nat channel)) = None"
  shows "dw_dma_start h s channel = Inl NullDeref"
  using assms by (simp add: dw_dma_start_def Let_def)

text \<open>
  Claim C7 says that a failed allocation makes \<^verbatim>\<open>dw_dma_set_config\<close> return
  an out-of-memory error and leave the channel unconfigured. The function has no
  test of the pointer \<^verbatim>\<open>rmalloc\<close> returns: it stores the pointer in the
  channel and writes the first descriptor's control word through it. With an
  allocator that fails, on a device just probed, the call does not return an
  error: it dereferences the null pointer.
\<close>

theorem set_config_alloc_failure:
  "dw_dma_set_config hdr0 dw0 alloc_fail dma0 0 config3 = Inl NullDeref"
  by (simp add: eval_defs)

text \<open>
  Claim C4 says that \<^verbatim>\<open>dw_dma_start\<close> on a channel with no chain attached
  fails with a not-configured error and writes no register. The function has no
  test of \<^verbatim>\<open>lli\<close>: its first statement reads the source address through
  it. On a channel that has been acquired and not configured, the pointer is
  null and the call dereferences it instead of returning an error.
\<close>

theorem start_without_chain:
  "fst (dw_dma_channel_get hdr0 dma0) = Inr 0
   \<and> lli (chan (snd (dw_dma_channel_get hdr0 dma0)) 0) = None
   \<and> dw_dma_start hdr0 (snd (dw_dma_channel_get hdr0 dma0)) 0 = Inl NullDeref"
  by (simp add: dw_dma_channel_get_def channel_get_loop.simps dw_dma_start_def io_reg_write_def
      eval_defs)

subsection \<open>The drain poller\<close>

lemma fifo_work_loop_idle:
  assumes "\<forall>j<DW_MAX_CHAN. status (chan s j) AND DMA_STATUS_DRAINING h = 0"
  shows "fifo_work_loop h i schedule s = (schedule, s)"
  using assms
proof (induction h i schedule s rule: fifo_work_loop.induct)
  case (1 h i schedule s)
  show ?case
  proof (cases "i < DW_MAX_CHAN")
    case True
    with "1.prems" have nd: "status (chan s i) AND DMA_STATUS_DRAINING h = 0" by simp
    from "1.IH"(1) [OF True nd "1.prems"] True nd show ?thesis
      by (subst fifo_work_loop.simps) simp
  next
    case False
    then show ?thesis by (subst fifo_work_loop.simps) simp
  qed
qed

text \<open>
  Claim C5 says that the drain poller asks to be rescheduled exactly when a
  channel remains draining after its pass, and returns 0 when no channel is
  draining. The function's local \<^verbatim>\<open>schedule\<close> has no initial value and is
  assigned only where a draining channel's FIFO is not yet empty; the return
  statement tests it in every case. With no channel draining the pass reads and
  writes no register and changes nothing, and what it returns is decided by the
  value the variable happened to hold: 1 when that value was 1. The same holds
  when the only draining channel (channel 3) reports its FIFO empty: the pass
  clears its draining flag, no channel remains draining, and the result is
  again 1.
\<close>

theorem fifo_work_uninitialised_schedule:
  "dw_dma_fifo_work hdr0 1 dma0 = (1, dma0)
   \<and> (case dw_dma_fifo_work hdr0 1
         (dma0\<lparr>chan := (chan dma0)(3 := chan0\<lparr>status := 4\<rparr>),
               regs := (regs dma0)(base dma0 + DW_CFG_LOW 3 := 0x200)\<rparr>) of
         (r, s') \<Rightarrow> r = 1 \<and> map (\<lambda>i. status (chan s' i)) [0..<DW_MAX_CHAN] = [0, 0, 0, 0, 0, 0, 0, 0])"
  apply (rule conjI)
   apply (simp add: dw_dma_fifo_work_def fifo_work_loop_idle hdr0_def dma0_def chan0_def)
  apply (simp only: upt_DW_MAX_CHAN)
  apply (simp add: dw_dma_fifo_work_def fifo_work_loop.simps hdr0_def dma0_def chan0_def
      io_reg_read_def io_reg_write_def io_reg_update_bits_def DW_CFG_LOW_def DW_DMA_CHAN_EN_def
      BYT_CHAN_OFFSET_def DW_CH_SIZE_def DW_CFG_CH_FIFO_EMPTY_def CHAN_DISABLE_def
      DW_MAX_CHAN_def Let_def)
  done

subsection \<open>Releasing a channel\<close>

text \<open>
  Claim C6 says that a free channel has no chain and no callback, and that
  after \<^verbatim>\<open>dw_dma_channel_put\<close> the channel is free with its callback cleared
  and no chain attached. The function sets the status and clears the callback;
  where its comment says "free the lli allocated by set\_config" there is no
  statement. After acquiring channel 0, configuring one segment, setting a
  callback and releasing the channel, the channel is free, its callback is
  null, and the chain is still attached.
\<close>

theorem channel_put_keeps_chain:
  "(case dw_dma_set_config hdr0 dw0 alloc0 (snd (dw_dma_channel_get hdr0 dma0)) 0 config1 of
      Inl f \<Rightarrow> False
    | Inr (r, s2) \<Rightarrow>
        (case dw_dma_set_cb s2 0 0x4000 0x55 of
           Inl f \<Rightarrow> False
         | Inr s3 \<Rightarrow>
             (case dw_dma_channel_put hdr0 s3 0 of
                Inl f \<Rightarrow> False
              | Inr s4 \<Rightarrow>
                  status (chan s4 0) = DMA_STATUS_FREE hdr0
                \<and> cb (chan s4 0) = 0
                \<and> lli (chan s4 0) =
                    Some (0x1000, [\<lparr>sar = 0x2000, dar = 0x8000, llp = 0,
                                    ctrl_lo = 0x100124, ctrl_hi = 0\<rparr>]))))"
  by (simp add: dw_dma_channel_get_def channel_get_loop.simps dw_dma_set_cb_def
      dw_dma_channel_put_def io_reg_write_def eval_defs)

end
